theory Spec2Isabelle
  imports Main "HOL-Library.Sublist"
begin

section \<open>Python strings and lists\<close>

text \<open>
  A Python \<open>str\<close> is modelled as a \<open>string\<close> whose characters are the code points
  below 256. \<open>py_isspace\<close> lists the code points of that range that \<open>str.strip()\<close>
  removes (those for which \<open>str.isspace\<close> holds): tab, line feed, vertical tab, form
  feed, carriage return, the four separators 0x1C..0x1F, space, NEL and the no-break space.
\<close>

definition py_isspace :: "char \<Rightarrow> bool" where
  "py_isspace c = (c \<in> set [CHR 0x09, CHR 0x0A, CHR 0x0B, CHR 0x0C, CHR 0x0D,
                             CHR 0x1C, CHR 0x1D, CHR 0x1E, CHR 0x1F, CHR 0x20,
                             CHR 0x85, CHR 0xA0])"

definition lstrip :: "string \<Rightarrow> string" where
  "lstrip s = dropWhile py_isspace s"

definition rstrip :: "string \<Rightarrow> string" where
  "rstrip s = rev (dropWhile py_isspace (rev s))"

text \<open>\<open>s.strip()\<close>\<close>

definition strip :: "string \<Rightarrow> string" where
  "strip s = rstrip (lstrip s)"

text \<open>\<open>s.startswith(p)\<close> and \<open>s.endswith(p)\<close>\<close>

definition startswith :: "string \<Rightarrow> string \<Rightarrow> bool" where
  "startswith s p = prefix p s"

definition endswith :: "string \<Rightarrow> string \<Rightarrow> bool" where
  "endswith s p = suffix p s"

text \<open>\<open>a in b\<close> on strings: \<open>a\<close> occurs in \<open>b\<close> as a contiguous run of characters.\<close>

fun str_in :: "string \<Rightarrow> string \<Rightarrow> bool" where
  "str_in a [] = (a = [])"
| "str_in a (c # cs) = (prefix a (c # cs) \<or> str_in a cs)"

text \<open>
  \<open>xs[:k]\<close>: a negative \<open>k\<close> counts from the end, and the slice is clipped to the list.
\<close>

definition slice_to :: "'a list \<Rightarrow> int \<Rightarrow> 'a list" where
  "slice_to xs k = (if k < 0 then take (nat (int (length xs) + k)) xs else take (nat k) xs)"

text \<open>
  \<open>xs[i]\<close>: a negative index counts from the end; out of range raises \<open>IndexError\<close>,
  which is \<open>None\<close> here and becomes an error value in the caller.
\<close>

definition index :: "'a list \<Rightarrow> int \<Rightarrow> 'a option" where
  "index xs i =
     (if 0 \<le> i \<and> i < int (length xs) then Some (xs ! nat i)
      else if i < 0 \<and> - int (length xs) \<le> i then Some (xs ! nat (int (length xs) + i))
      else None)"

text \<open>\<open>os.path.basename\<close> on a POSIX path: what follows the last slash.\<close>

definition basename :: "string \<Rightarrow> string" where
  "basename p = rev (takeWhile (\<lambda>c. c \<noteq> CHR ''/'') (rev p))"

section \<open>The generation worker: cleaning the response text\<close>

text \<open>
  Lines 100 to 103 of \<open>CadQueryGenerator.run\<close>:
  \<^verbatim>\<open>
  if cad_query_code_str.strip().startswith("```python"):
      cad_query_code_str = cad_query_code_str.strip()[len("```python"):].strip()
  if cad_query_code_str.strip().endswith("```"):
      cad_query_code_str = cad_query_code_str.strip()[:-len("```")].strip()
  \<close>
  The slice \<open>[:-3]\<close> of a string shorter than three characters is empty, as the
  truncated subtraction gives.
\<close>

definition fence_open :: string where
  "fence_open = ''```python''"

definition fence_close :: string where
  "fence_close = ''```''"

definition strip_code_fence :: "string \<Rightarrow> string" where
  "strip_code_fence t =
     (let a = (if startswith (strip t) fence_open
               then strip (drop (length fence_open) (strip t)) else t)
      in if endswith (strip a) fence_close
         then strip (take (length (strip a) - length fence_close) (strip a)) else a)"

section \<open>The external collaborators\<close>

text \<open>
  What the program consumes from outside is a parameter of the model: the Python
  interpreter behind \<open>exec\<close>, the temporary-file module, the CAD kernel's export, and
  the mesh reader. An exception of a collaborator is the value \<open>Inl msg\<close> (or
  \<open>Some msg\<close>), with \<open>msg\<close> the text that \<open>str(e)\<close> gives.
\<close>

type_synonym path = string

datatype solid = Solid string

datatype mesh = Mesh string

text \<open>
  The values a script can leave in its namespace, as far as the program looks at them:
  its truth value and whether it is an instance of \<open>cq.Workplane\<close>. A Workplane
  defines neither \<open>__bool__\<close> nor \<open>__len__\<close>, so it is true; \<open>PyObject b\<close> is any
  other object, with truth value \<open>b\<close>.
\<close>

datatype py_value = PyNone | PyInt int | PyStr string | PyModule | Workplane solid | PyObject bool

fun truthy :: "py_value \<Rightarrow> bool" where
  "truthy PyNone = False"
| "truthy (PyInt n) = (n \<noteq> 0)"
| "truthy (PyStr s) = (s \<noteq> [])"
| "truthy PyModule = True"
| "truthy (Workplane w) = True"
| "truthy (PyObject b) = b"

fun isinstance_Workplane :: "py_value \<Rightarrow> bool" where
  "isinstance_Workplane (Workplane w) = True"
| "isinstance_Workplane v = False"

type_synonym namespace = "string \<rightharpoonup> py_value"

text \<open>
  \<open>exec(code, globals)\<close> raises \<open>SyntaxError\<close>, raises another exception, or returns
  and leaves the namespace it has written to.
\<close>

datatype exec_outcome = SyntaxError string | Exception string | Executed namespace

record env =
  gettempdir :: string
  py_exec :: "string \<Rightarrow> namespace \<Rightarrow> exec_outcome"
  NamedTemporaryFile :: "string + string"
  exportStl :: "solid \<Rightarrow> path \<Rightarrow> string option"
  pv_read :: "path set \<Rightarrow> path \<Rightarrow> string + mesh"

text \<open>
  \<open>exec_globals = {'cq': cq, 'result': None}\<close> and \<open>exec_globals.get('result')\<close>:
  a name the script has deleted reads as \<open>None\<close>.
\<close>

definition exec_globals :: namespace where
  "exec_globals = [''cq'' \<mapsto> PyModule, ''result'' \<mapsto> PyNone]"

definition get_result :: "namespace \<Rightarrow> py_value" where
  "get_result ns = (case ns ''result'' of None \<Rightarrow> PyNone | Some v \<Rightarrow> v)"

text \<open>
  \<open>tempfile.NamedTemporaryFile(suffix=".stl", delete=False)\<close> creates a file in the
  temporary directory, named \<open>tmp\<close>, a random part and the suffix; the environment
  gives the random part, or the exception.
\<close>

definition temp_stl_path :: "env \<Rightarrow> string \<Rightarrow> path" where
  "temp_stl_path e name = gettempdir e @ ''/'' @ ''tmp'' @ name @ ''.stl''"

section \<open>The generation worker\<close>

text \<open>
  \<open>CadQueryGenerator\<close>. The answer of the service to the request is an input of
  \<open>run\<close>: one of the exceptions that \<open>run\<close> tells apart, or the parsed JSON, of which
  \<open>run\<close> reads the candidates; a candidate is its \<open>content.parts\<close> (\<open>None\<close> when
  \<open>content\<close> or \<open>parts\<close> is missing or empty in the sense of \<open>if\<close>), a part is its
  \<open>text\<close> (\<open>None\<close> when the key is missing, which raises \<open>KeyError\<close>).
\<close>

record CadQueryGenerator =
  description :: string
  api_key :: string
  existing_cad_code :: "string option"
  image_base64 :: "string option"

datatype signal = Code_generated string | Generation_finished path | Generation_error string

type_synonym candidate = "string option list option"

datatype api_reply =
    HTTPError string string
  | ConnectionError
  | RequestException string
  | JSONDecodeError
  | OtherException string
  | Json "candidate list"

text \<open>
  What a run of the worker does: the signals it emits, in order, the message boxes it
  opens (title and text), and the files that exist afterwards.
\<close>

record run_result =
  signals :: "signal list"
  boxes :: "(string \<times> string) list"
  files_after :: "path set"

definition failed :: "string \<Rightarrow> string \<Rightarrow> path set \<Rightarrow> run_result" where
  "failed title error_msg fs =
     \<lparr>signals = [Generation_error error_msg], boxes = [(title, error_msg)], files_after = fs\<rparr>"

definition quoted :: "string \<Rightarrow> string" where
  "quoted s = [CHR 0x27] @ s @ [CHR 0x27]"

definition invalid_result_msg :: string where
  "invalid_result_msg =
     ''Generated code did not produce a valid CadQuery model assigned to ''
     @ quoted ''result'' @ ''.''
     @ ''Please refine your description to ensure the final model is assigned to ''
     @ quoted ''result'' @ ''.''"

definition generated_code_suffix :: "string \<Rightarrow> string" where
  "generated_code_suffix code = ''\<newline>Generated code:\<newline>'' @ code"

text \<open>
  Lines 138 to 169 of \<open>run\<close>: execute the cleaned text, check the binding \<open>result\<close>,
  export it to a temporary file. The result is the signal emitted and the files left.
  The temporary file exists from its creation on, also when the export raises. The last
  case of the export is \<open>.val()\<close> on a value that is no Workplane, which raises, and
  which the test before it excludes.
\<close>

definition run_execute :: "env \<Rightarrow> string \<Rightarrow> path set \<Rightarrow> signal \<times> path set" where
  "run_execute e cad_query_code_str fs =
     (if cad_query_code_str \<noteq> [] then
        (case py_exec e cad_query_code_str exec_globals of
           SyntaxError msg \<Rightarrow>
             (Generation_error (''Syntax error in generated CadQuery code: '' @ msg
                @ generated_code_suffix cad_query_code_str), fs)
         | Exception msg \<Rightarrow>
             (Generation_error (''Error executing CadQuery code or exporting model: '' @ msg
                @ generated_code_suffix cad_query_code_str), fs)
         | Executed ns \<Rightarrow>
             (let cad_model = get_result ns in
              if truthy cad_model \<and> isinstance_Workplane cad_model then
                (case NamedTemporaryFile e of
                   Inl msg \<Rightarrow>
                     (Generation_error
                        (''Error executing CadQuery code or exporting model: '' @ msg
                         @ generated_code_suffix cad_query_code_str), fs)
                 | Inr name \<Rightarrow>
                     (case cad_model of
                        Workplane w \<Rightarrow>
                          (case exportStl e w (temp_stl_path e name) of
                             Some msg \<Rightarrow>
                               (Generation_error
                                  (''Error executing CadQuery code or exporting model: '' @ msg
                                   @ generated_code_suffix cad_query_code_str),
                                insert (temp_stl_path e name) fs)
                           | None \<Rightarrow>
                               (Generation_finished (temp_stl_path e name),
                                insert (temp_stl_path e name) fs))
                      | _ \<Rightarrow>
                          (Generation_error
                             (''Error executing CadQuery code or exporting model: ''
                              @ generated_code_suffix cad_query_code_str),
                           insert (temp_stl_path e name) fs)))
              else
                (Generation_error
                   (invalid_result_msg @ generated_code_suffix cad_query_code_str), fs)))
      else (Generation_error ''No CadQuery code available for execution.'', fs))"

definition no_code_msg :: string where
  "no_code_msg = ''No CadQuery code generated by the API. Please check the description or API response structure.''"

definition run :: "env \<Rightarrow> api_reply \<Rightarrow> path set \<Rightarrow> run_result" where
  "run e reply fs =
     (case reply of
        HTTPError status_code reason \<Rightarrow>
          failed ''API Authentication Error''
            (''API Error (HTTP '' @ status_code @ ''): '' @ reason
             @ ''. Please check your API key and its permissions for the Gemini API.'') fs
      | ConnectionError \<Rightarrow>
          failed ''Network Error''
            ''Network Connection Error: Could not connect to the Gemini API. Please check your internet connection.'' fs
      | RequestException msg \<Rightarrow>
          failed ''Network/API Error'' (''General Network or API error: '' @ msg) fs
      | JSONDecodeError \<Rightarrow>
          failed ''API Response Parsing Error''
            ''Failed to parse API response. The response might not be valid JSON.'' fs
      | OtherException msg \<Rightarrow>
          failed ''Unexpected API Error''
            (''An unexpected error occurred during API call: '' @ msg) fs
      | Json candidates \<Rightarrow>
          (case candidates of
             Some (Some text # parts) # cs \<Rightarrow>
               (let cad_query_code_str = strip_code_fence text;
                    (sig, fs') = run_execute e cad_query_code_str fs
                in \<lparr>signals = [Code_generated cad_query_code_str, sig], boxes = [],
                    files_after = fs'\<rparr>)
           | Some (None # parts) # cs \<Rightarrow>
               failed ''Unexpected API Error''
                 (''An unexpected error occurred during API call: '' @ quoted ''text'') fs
           | _ \<Rightarrow> failed ''API Response Error'' no_code_msg fs))"

section \<open>The application state\<close>

text \<open>
  \<open>CADChatbotApp\<close> with its \<open>ModelViewer\<close>, flattened into one record: the attributes
  of the application, the widgets it reads and writes (text and enabled flag; style
  sheets, console output and scroll positions are left out), the viewer (the meshes in
  the plotter, each with the edge flag it was added with), and what the handlers do to
  the world: the files that exist, the message boxes opened, and the workers on which
  \<open>start()\<close> has been called, in order.
\<close>

record app =
  current_cad_code :: string
  generator_thread :: "CadQueryGenerator option"
  model_history :: "string list"
  history_pointer :: int
  description_input :: string
  chat_history_display :: "string list"
  status_label :: string
  generate_button_enabled :: bool
  generate_button_text :: string
  undo_action_enabled :: bool
  redo_action_enabled :: bool
  plotter :: "(mesh \<times> bool) list"
  current_mesh :: "mesh option"
  show_edges :: bool
  files :: "path set"
  message_boxes :: "(string \<times> string) list"
  threads_started :: "CadQueryGenerator list"

datatype py_error = IndexError

definition API_KEY :: string where
  "API_KEY = ''''"

definition update_undo_redo_buttons :: "app \<Rightarrow> app" where
  "update_undo_redo_buttons s =
     s\<lparr>undo_action_enabled := (history_pointer s > 0),
       redo_action_enabled := (history_pointer s < int (length (model_history s)) - 1)\<rparr>"

text \<open>\<open>CADChatbotApp.__init__\<close>, on the files \<open>fs\<close> that exist at start.\<close>

definition init :: "path set \<Rightarrow> app" where
  "init fs = update_undo_redo_buttons
     \<lparr>current_cad_code = [], generator_thread = None, model_history = [],
      history_pointer = - 1, description_input = [], chat_history_display = [],
      status_label = [], generate_button_enabled = True,
      generate_button_text = ''Generate CAD Model'', undo_action_enabled = True,
      redo_action_enabled = True, plotter = [], current_mesh = None, show_edges = True,
      files = fs, message_boxes = [], threads_started = []\<rparr>"

subsection \<open>The viewer\<close>

text \<open>
  \<open>ModelViewer._add_current_mesh_to_plotter\<close>: a mesh that has been read counts as
  true in \<open>if self.current_mesh\<close>.
\<close>

definition add_current_mesh_to_plotter :: "app \<Rightarrow> app" where
  "add_current_mesh_to_plotter s =
     (case current_mesh s of
        Some m \<Rightarrow> s\<lparr>plotter := plotter s @ [(m, show_edges s)]\<rparr>
      | None \<Rightarrow> s)"

text \<open>
  \<open>ModelViewer.load_stl\<close>. Every exception of the read is caught, and the \<open>finally\<close>
  block runs on both paths:
  \<^verbatim>\<open>
  if os.path.exists(stl_filepath) and tempfile.gettempdir() in stl_filepath:
      os.remove(stl_filepath)
  \<close>
\<close>

definition load_stl :: "env \<Rightarrow> path \<Rightarrow> app \<Rightarrow> app" where
  "load_stl e stl_filepath s =
     (let s1 = s\<lparr>plotter := [], current_mesh := None\<rparr>;
          s2 = (case pv_read e (files s1) stl_filepath of
                  Inr m \<Rightarrow> add_current_mesh_to_plotter (s1\<lparr>current_mesh := Some m\<rparr>)
                | Inl msg \<Rightarrow>
                    s1\<lparr>message_boxes := message_boxes s1 @
                         [(''3D Viewer Error'',
                           ''Failed to load or display model in PyVista: '' @ msg)]\<rparr>)
      in if stl_filepath \<in> files s2 \<and> str_in (gettempdir e) stl_filepath
         then s2\<lparr>files := files s2 - {stl_filepath}\<rparr>
         else s2)"

text \<open>\<open>ModelViewer.clear_model\<close>\<close>

definition viewer_clear_model :: "app \<Rightarrow> app" where
  "viewer_clear_model s = s\<lparr>plotter := [], current_mesh := None\<rparr>"

subsection \<open>Replaying stored code\<close>

definition replay_invalid_msg :: string where
  "replay_invalid_msg =
     ''Error: Executed code did not produce a valid CadQuery model assigned to ''
     @ quoted ''result'' @ ''.''"

text \<open>
  \<open>CADChatbotApp._execute_cad_code_and_display\<close>. The call of \<open>load_stl\<close> is inside
  the \<open>try\<close>; the last case of the export is \<open>.val()\<close> on a value that is no
  Workplane, which the test before it excludes.
\<close>

definition execute_cad_code_and_display :: "env \<Rightarrow> string \<Rightarrow> app \<Rightarrow> app" where
  "execute_cad_code_and_display e cad_code_str s =
     (if cad_code_str = [] then
        (viewer_clear_model s)\<lparr>status_label := ''No CAD code to display.''\<rparr>
      else
        (case py_exec e cad_code_str exec_globals of
           SyntaxError msg \<Rightarrow>
             s\<lparr>status_label := ''Syntax error in CadQuery code: '' @ msg\<rparr>
         | Exception msg \<Rightarrow>
             s\<lparr>status_label := ''Error executing CadQuery code or displaying model: '' @ msg\<rparr>
         | Executed ns \<Rightarrow>
             (let cad_model = get_result ns in
              if truthy cad_model \<and> isinstance_Workplane cad_model then
                (case NamedTemporaryFile e of
                   Inl msg \<Rightarrow>
                     s\<lparr>status_label :=
                         ''Error executing CadQuery code or displaying model: '' @ msg\<rparr>
                 | Inr name \<Rightarrow>
                     (let s1 = s\<lparr>files := insert (temp_stl_path e name) (files s)\<rparr> in
                      case cad_model of
                        Workplane w \<Rightarrow>
                          (case exportStl e w (temp_stl_path e name) of
                             Some msg \<Rightarrow>
                               s1\<lparr>status_label :=
                                   ''Error executing CadQuery code or displaying model: ''
                                   @ msg\<rparr>
                           | None \<Rightarrow>
                               (load_stl e (temp_stl_path e name) s1)
                                 \<lparr>status_label := ''Model displayed successfully!''\<rparr>)
                      | _ \<Rightarrow>
                          s1\<lparr>status_label :=
                              ''Error executing CadQuery code or displaying model: ''\<rparr>))
              else s\<lparr>status_label := replay_invalid_msg\<rparr>)))"

subsection \<open>The toolbar and the buttons\<close>

text \<open>\<open>new_file\<close>; \<open>reply\<close> is the answer to the question box (\<open>True\<close> for Yes).\<close>

definition new_file :: "bool \<Rightarrow> app \<Rightarrow> app" where
  "new_file reply s =
     (if reply then
        update_undo_redo_buttons
          ((viewer_clear_model s)
             \<lparr>description_input := [], chat_history_display := [],
              status_label :=
                ''New session started. Enter a description to generate a new model.'',
              current_cad_code := [], model_history := [], history_pointer := - 1\<rparr>)
      else s)"

text \<open>\<open>open_file\<close>; \<open>filepath\<close> is what the file dialog returns, empty when cancelled.\<close>

definition open_file :: "env \<Rightarrow> path \<Rightarrow> app \<Rightarrow> app" where
  "open_file e filepath s =
     (if filepath \<noteq> [] then
        (let s1 = (load_stl e filepath s)
                    \<lparr>status_label := ''Loaded model from: '' @ basename filepath,
                     current_cad_code := [], model_history := [], history_pointer := - 1\<rparr>;
             s2 = update_undo_redo_buttons s1
         in s2\<lparr>chat_history_display := chat_history_display s2 @
                  [''<b style='' @ quoted ''color:#E0E0E0;'' @ ''>--- Loaded STL: ''
                     @ basename filepath @ '' ---</b>'',
                   ''<i style='' @ quoted ''color:#FFA07A;''
                     @ ''>Note: Further prompts will generate NEW models, as direct modification of loaded STLs via CadQuery code is not supported.</i>''],
                description_input := []\<rparr>)
      else s)"

text \<open>\<open>CADChatbotApp.clear_model\<close>\<close>

definition clear_model :: "app \<Rightarrow> app" where
  "clear_model s =
     update_undo_redo_buttons
       ((viewer_clear_model s)
          \<lparr>status_label := ''Model cleared from viewer.'', current_cad_code := [],
           chat_history_display := [], model_history := [], history_pointer := - 1\<rparr>)"

text \<open>
  \<open>undo_model\<close> and \<open>redo_model\<close>. The read \<open>self.model_history[self.history_pointer]\<close>
  raises \<open>IndexError\<close> out of range, after the pointer has moved: the error value
  carries the state at the raise.
\<close>

definition undo_model :: "env \<Rightarrow> app \<Rightarrow> (py_error \<times> app) + app" where
  "undo_model e s =
     (if history_pointer s > 0 then
        (let s1 = s\<lparr>history_pointer := history_pointer s - 1\<rparr> in
         case index (model_history s1) (history_pointer s1) of
           None \<Rightarrow> Inl (IndexError, s1)
         | Some cad_code_to_load \<Rightarrow>
             (let s2 = execute_cad_code_and_display e cad_code_to_load
                         (s1\<lparr>current_cad_code := cad_code_to_load\<rparr>)
              in Inr (update_undo_redo_buttons
                   (s2\<lparr>chat_history_display := chat_history_display s2 @
                         [''<b style='' @ quoted ''color:#E0E0E0;''
                            @ ''>AutoModel:</b> Undoing last change.'']\<rparr>))))
      else Inr (s\<lparr>status_label := ''No more actions to undo.''\<rparr>))"

definition redo_model :: "env \<Rightarrow> app \<Rightarrow> (py_error \<times> app) + app" where
  "redo_model e s =
     (if history_pointer s < int (length (model_history s)) - 1 then
        (let s1 = s\<lparr>history_pointer := history_pointer s + 1\<rparr> in
         case index (model_history s1) (history_pointer s1) of
           None \<Rightarrow> Inl (IndexError, s1)
         | Some cad_code_to_load \<Rightarrow>
             (let s2 = execute_cad_code_and_display e cad_code_to_load
                         (s1\<lparr>current_cad_code := cad_code_to_load\<rparr>)
              in Inr (update_undo_redo_buttons
                   (s2\<lparr>chat_history_display := chat_history_display s2 @
                         [''<b style='' @ quoted ''color:#E0E0E0;''
                            @ ''>AutoModel:</b> Redoing last change.'']\<rparr>))))
      else Inr (s\<lparr>status_label := ''No more actions to redo.''\<rparr>))"

subsection \<open>Starting a generation\<close>

text \<open>
  \<open>upload_sketch\<close>; \<open>filepath\<close> is what the file dialog returns, \<open>encoded\<close> what
  reading and encoding the file gives: the exception, or the base64 text.
\<close>

definition upload_sketch :: "path \<Rightarrow> string + string \<Rightarrow> app \<Rightarrow> app" where
  "upload_sketch filepath encoded s =
     (if filepath \<noteq> [] then
        (case encoded of
           Inr encoded_string \<Rightarrow>
             (let worker = \<lparr>description = ''Generate 3D model from sketch'',
                            api_key = API_KEY, existing_cad_code = None,
                            image_base64 = Some encoded_string\<rparr>
              in s\<lparr>chat_history_display := chat_history_display s @
                      [''<b style='' @ quoted ''color:#4299E1;''
                         @ ''>You:</b> Uploaded sketch: '' @ basename filepath],
                    description_input := [],
                    generate_button_enabled := False,
                    generate_button_text := ''Generating from Sketch...'',
                    status_label := ''Generating model from sketch, please wait...'',
                    plotter := [],
                    generator_thread := Some worker,
                    threads_started := threads_started s @ [worker]\<rparr>)
         | Inl msg \<Rightarrow>
             s\<lparr>status_label := ''Error uploading sketch: '' @ msg,
               generate_button_enabled := True,
               generate_button_text := ''Generate CAD Model'',
               chat_history_display := chat_history_display s @
                 [''<b style='' @ quoted ''color:#F56565;''
                    @ ''>AutoModel:</b> Error uploading sketch: '' @ msg]\<rparr>)
      else s)"

text \<open>\<open>generate_cad_query\<close>\<close>

definition generate_cad_query :: "app \<Rightarrow> app" where
  "generate_cad_query s =
     (let description = strip (description_input s) in
      if description = [] then
        s\<lparr>status_label := ''Please enter a description for the CAD part.''\<rparr>
      else
        (let worker = \<lparr>description = description, api_key = API_KEY,
                       existing_cad_code = Some (current_cad_code s),
                       image_base64 = None\<rparr>
         in s\<lparr>chat_history_display := chat_history_display s @
                 [''<b style='' @ quoted ''color:#4299E1;'' @ ''>You:</b> '' @ description],
               description_input := [],
               generate_button_enabled := False,
               generate_button_text := ''Generating...'',
               status_label := ''Generating model, please wait...'',
               plotter := [],
               generator_thread := Some worker,
               threads_started := threads_started s @ [worker]\<rparr>))"

subsection \<open>The slots of the worker's signals\<close>

text \<open>\<open>on_generation_finished\<close>: the push onto the history is its last block.\<close>

definition on_generation_finished :: "env \<Rightarrow> path \<Rightarrow> app \<Rightarrow> app" where
  "on_generation_finished e stl_filepath s =
     (let s1 = load_stl e stl_filepath s;
          s2 = s1\<lparr>status_label := ''CadQuery model generated and displayed successfully!'',
                  generate_button_enabled := True,
                  generate_button_text := ''Generate CAD Model'',
                  generator_thread := None,
                  chat_history_display := chat_history_display s1 @
                    [''<b style='' @ quoted ''color:#48BB78;''
                       @ ''>AutoModel:</b> Model generated successfully!'']\<rparr>
      in if current_cad_code s2 \<noteq> [] then
           (let truncated =
                  (if history_pointer s2 < int (length (model_history s2)) - 1
                   then slice_to (model_history s2) (history_pointer s2 + 1)
                   else model_history s2);
                appended = truncated @ [current_cad_code s2]
            in update_undo_redo_buttons
                 (s2\<lparr>model_history := appended,
                     history_pointer := int (length appended) - 1\<rparr>))
         else s2)"

definition on_code_generated :: "string \<Rightarrow> app \<Rightarrow> app" where
  "on_code_generated cad_code_str s = s\<lparr>current_cad_code := cad_code_str\<rparr>"

definition on_generation_error :: "string \<Rightarrow> app \<Rightarrow> app" where
  "on_generation_error error_message s =
     s\<lparr>status_label := ''Error: '' @ error_message,
       generate_button_enabled := True,
       generate_button_text := ''Generate CAD Model'',
       generator_thread := None,
       chat_history_display := chat_history_display s @
         [''<b style='' @ quoted ''color:#F56565;'' @ ''>AutoModel:</b> Error: ''
            @ error_message]\<rparr>"

subsection \<open>Events\<close>

text \<open>
  What reaches the handlers. A disabled button or action does not fire: the Generate
  button and the Undo and Redo actions are the only controls whose enabled flag the
  program ever sets; every other action of the toolbar stays enabled. An exception
  that leaves a slot is reported by the exception hook and the event loop goes on, in
  the state at the raise. A signal of a worker is delivered to the slot connected to it
  (\<open>Emitted\<close>); \<open>Worker_run\<close> is a whole run of a started worker on the answer of
  the service, with its signals delivered in the order of their emission.
\<close>

datatype event =
    Type_description string
  | Click_generate
  | Trigger_new_file bool
  | Trigger_open_file path
  | Trigger_undo
  | Trigger_redo
  | Trigger_clear_model
  | Trigger_upload_sketch path "string + string"
  | Emitted signal
  | Worker_run api_reply

definition after_slot :: "(py_error \<times> app) + app \<Rightarrow> app" where
  "after_slot r = (case r of Inl (err, s) \<Rightarrow> s | Inr s \<Rightarrow> s)"

fun slot :: "env \<Rightarrow> signal \<Rightarrow> app \<Rightarrow> app" where
  "slot e (Code_generated c) s = on_code_generated c s"
| "slot e (Generation_finished p) s = on_generation_finished e p s"
| "slot e (Generation_error m) s = on_generation_error m s"

definition worker_run :: "env \<Rightarrow> api_reply \<Rightarrow> app \<Rightarrow> app" where
  "worker_run e reply s =
     (let r = run e reply (files s)
      in foldl (\<lambda>s' sig. slot e sig s')
           (s\<lparr>files := files_after r, message_boxes := message_boxes s @ boxes r\<rparr>)
           (signals r))"

fun dispatch :: "env \<Rightarrow> event \<Rightarrow> app \<Rightarrow> app" where
  "dispatch e (Type_description d) s = s\<lparr>description_input := d\<rparr>"
| "dispatch e Click_generate s =
     (if generate_button_enabled s then generate_cad_query s else s)"
| "dispatch e (Trigger_new_file reply) s = new_file reply s"
| "dispatch e (Trigger_open_file filepath) s = open_file e filepath s"
| "dispatch e Trigger_undo s =
     (if undo_action_enabled s then after_slot (undo_model e s) else s)"
| "dispatch e Trigger_redo s =
     (if redo_action_enabled s then after_slot (redo_model e s) else s)"
| "dispatch e Trigger_clear_model s = clear_model s"
| "dispatch e (Trigger_upload_sketch filepath encoded) s = upload_sketch filepath encoded s"
| "dispatch e (Emitted sig) s = slot e sig s"
| "dispatch e (Worker_run reply) s = worker_run e reply s"

fun dispatch_all :: "env \<Rightarrow> event list \<Rightarrow> app \<Rightarrow> app" where
  "dispatch_all e [] s = s"
| "dispatch_all e (ev # evs) s = dispatch_all e evs (dispatch e ev s)"

subsection \<open>The revision history\<close>

text \<open>
  The invariant of the history: the cursor is between \<open>-1\<close> and the last index, and it
  is \<open>-1\<close> exactly when there is no snapshot.
\<close>

definition hist_inv :: "app \<Rightarrow> bool" where
  "hist_inv s =
     (- 1 \<le> history_pointer s \<and> history_pointer s \<le> int (length (model_history s)) - 1
      \<and> ((history_pointer s = - 1) = (model_history s = [])))"

section \<open>Concrete inputs\<close>

text \<open>
  An environment for the examples: the temporary directory is \<open>/tmp\<close>; the script
  \<open>result = 5\<close> binds the integer, every other script binds a Workplane; the
  temporary file gets the random part \<open>ab12cd\<close>; the export succeeds; the mesh reader
  reads the files that exist.
\<close>

definition env0 :: env where
  "env0 =
     \<lparr>gettempdir = ''/tmp'',
      py_exec = (\<lambda>code ns. if code = ''result = 5''
                            then Executed (ns(''result'' \<mapsto> PyInt 5))
                            else Executed (ns(''result'' \<mapsto> Workplane (Solid code)))),
      NamedTemporaryFile = Inr ''ab12cd'',
      exportStl = (\<lambda>w p. None),
      pv_read = (\<lambda>fs p. if p \<in> fs then Inr (Mesh p) else Inl ''File not found'')\<rparr>"

text \<open>A session with three snapshots and the cursor at \<open>p\<close>.\<close>

definition history_abc :: "int \<Rightarrow> app" where
  "history_abc p =
     update_undo_redo_buttons
       ((init {})\<lparr>current_cad_code := ''c'', model_history := [''a'', ''b'', ''c''],
                  history_pointer := p\<rparr>)"

text \<open>A file of the user in a directory of their own, and a session that holds it.\<close>

definition user_file :: path where
  "user_file = ''/home/user/tmp/part.stl''"

text \<open>The session after typing a description and pressing Generate.\<close>

definition generating :: app where
  "generating = dispatch_all env0 [Type_description ''a box'', Click_generate] (init {})"

text \<open>A session whose first snapshot is the script \<open>result = 5\<close>, with the cursor after it.\<close>

definition replay_state :: app where
  "replay_state =
     update_undo_redo_buttons
       ((init {})\<lparr>current_cad_code := ''b'', model_history := [''result = 5'', ''b''],
                  history_pointer := 1\<rparr>)"

text \<open>
  A script whose result depends on a file, an environment in which the file can no
  longer be read, and the session after two generations in \<open>env0\<close>: the first from
  that script, the second from the script \<open>b\<close>.
\<close>

definition step_script :: string where
  "step_script = ''result = cq.importers.importStep('' @ quoted ''part.step'' @ '')''"

definition env_missing :: env where
  "env_missing =
     env0\<lparr>py_exec := (\<lambda>code ns. if code = step_script
                                  then Exception ''STEP File could not be loaded''
                                  else py_exec env0 code ns)\<rparr>"

definition two_generations :: app where
  "two_generations =
     dispatch_all env0
       [Type_description ''the part in part.step'', Click_generate,
        Worker_run (Json [Some [Some step_script]]),
        Type_description ''drill a hole'', Click_generate,
        Worker_run (Json [Some [Some ''b'']])]
       (init {})"

section \<open>Properties\<close>

subsection \<open>Strings\<close>

lemma str_in_sublist: "str_in a b = sublist a b"
  by (induction b) (auto simp: sublist_Cons_right)

lemma str_in_append: "str_in a (pre @ a @ post)"
  by (simp add: str_in_sublist)

lemma dropWhile_all: "(\<forall>x \<in> set (dropWhile P t). P x) = (\<forall>x \<in> set t. P x)"
  by (induction t) auto

lemma strip_empty_iff: "(strip t = []) = (\<forall>c \<in> set t. py_isspace c)"
  by (simp add: strip_def rstrip_def lstrip_def dropWhile_eq_Nil_conv dropWhile_all)

subsection \<open>What the viewer and the replay leave alone\<close>

lemma load_stl_frame [simp]:
  "current_cad_code (load_stl e p s) = current_cad_code s"
  "model_history (load_stl e p s) = model_history s"
  "history_pointer (load_stl e p s) = history_pointer s"
  "status_label (load_stl e p s) = status_label s"
  "chat_history_display (load_stl e p s) = chat_history_display s"
  by (simp_all add: load_stl_def Let_def add_current_mesh_to_plotter_def
      split: sum.splits option.splits)

lemma execute_frame [simp]:
  "current_cad_code (execute_cad_code_and_display e c s) = current_cad_code s"
  "model_history (execute_cad_code_and_display e c s) = model_history s"
  "history_pointer (execute_cad_code_and_display e c s) = history_pointer s"
  "chat_history_display (execute_cad_code_and_display e c s) = chat_history_display s"
  by (simp_all add: execute_cad_code_and_display_def viewer_clear_model_def Let_def
      split: exec_outcome.splits sum.splits option.splits py_value.splits)

subsection \<open>Cleaning the response\<close>

text \<open>
  C9. The fence stripping maps the response text made of the opening fence with its
  language tag, a line feed, \<open>result = x\<close>, a line feed and the closing fence to
  \<open>result = x\<close>: no fence marker is left, and the first and last characters of the
  cleaned text are not whitespace.
\<close>

theorem strip_code_fence_example:
  "strip_code_fence (''```python'' @ [CHR 0x0A] @ ''result = x'' @ [CHR 0x0A] @ ''```'')
     = ''result = x''
   \<and> \<not> str_in ''```'' (strip_code_fence
         (''```python'' @ [CHR 0x0A] @ ''result = x'' @ [CHR 0x0A] @ ''```''))
   \<and> strip (strip_code_fence
         (''```python'' @ [CHR 0x0A] @ ''result = x'' @ [CHR 0x0A] @ ''```''))
       = strip_code_fence
         (''```python'' @ [CHR 0x0A] @ ''result = x'' @ [CHR 0x0A] @ ''```'')"
  by (simp add: strip_code_fence_def fence_open_def fence_close_def startswith_def
      endswith_def strip_def lstrip_def rstrip_def py_isspace_def suffix_to_prefix)

subsection \<open>The Generate action\<close>

text \<open>
  C10. When the description box is empty or holds only whitespace, the Generate action
  changes nothing but the status line, which asks for a description: no worker is
  created or started, and the viewer, the current code, the history and the transcript
  are as before.
\<close>

theorem blank_description_ignored:
  "(\<forall>c \<in> set (description_input s). py_isspace c) \<longrightarrow>
     generate_cad_query s
       = s\<lparr>status_label := ''Please enter a description for the CAD part.''\<rparr>"
  by (simp add: generate_cad_query_def strip_empty_iff)

theorem blank_description_ignored_witness:
  "list_all py_isspace (description_input ((init {})\<lparr>description_input := ''  ''\<rparr>))
   \<and> generate_cad_query ((init {})\<lparr>description_input := ''  ''\<rparr>)
       = (init {})\<lparr>description_input := ''  '',
                   status_label := ''Please enter a description for the CAD part.''\<rparr>"
  using blank_description_ignored [of "(init {})\<lparr>description_input := ''  ''\<rparr>"]
  by (simp add: py_isspace_def)

subsection \<open>The revision history\<close>

text \<open>
  C4. Pushing a snapshot (the last block of \<open>on_generation_finished\<close>, which runs when
  the current code is not empty) on a history whose cursor is before the last index
  keeps the snapshots up to the cursor, appends the new one and leaves the cursor at the
  new last index. With the history \<open>[a, b, c]\<close> and the cursor at \<open>c\<close>, an undo moves
  to \<open>b\<close>, and the push of \<open>d\<close> then gives \<open>[a, b, d]\<close>.
\<close>

theorem push_truncates:
  "(current_cad_code s \<noteq> [] \<and> - 1 \<le> history_pointer s
      \<and> history_pointer s < int (length (model_history s)) - 1 \<longrightarrow>
      model_history (on_generation_finished e p s)
        = take (nat (history_pointer s + 1)) (model_history s) @ [current_cad_code s]
      \<and> history_pointer (on_generation_finished e p s)
        = int (length (model_history (on_generation_finished e p s))) - 1)
   \<and> (d \<noteq> [] \<and> model_history t = [a, b, c] \<and> history_pointer t = 2 \<longrightarrow>
        (\<exists>t1. undo_model e1 t = Inr t1 \<and> history_pointer t1 = 1
           \<and> current_cad_code t1 = b \<and> model_history t1 = [a, b, c]
           \<and> model_history (on_generation_finished e2 q (on_code_generated d t1)) = [a, b, d]
           \<and> history_pointer (on_generation_finished e2 q (on_code_generated d t1)) = 2))"
  by (auto simp add: on_generation_finished_def Let_def update_undo_redo_buttons_def
      slice_to_def undo_model_def index_def on_code_generated_def)

theorem push_truncates_witness:
  "current_cad_code (history_abc 0) \<noteq> [] \<and> - 1 \<le> history_pointer (history_abc 0)
   \<and> history_pointer (history_abc 0) < int (length (model_history (history_abc 0))) - 1
   \<and> model_history (on_generation_finished env0 ''/tmp/tmpab12cd.stl'' (history_abc 0))
       = [''a'', ''c'']
   \<and> history_pointer (on_generation_finished env0 ''/tmp/tmpab12cd.stl'' (history_abc 0)) = 1
   \<and> ''d'' \<noteq> [] \<and> model_history (history_abc 2) = [''a'', ''b'', ''c'']
   \<and> history_pointer (history_abc 2) = 2
   \<and> (\<exists>t1. undo_model env0 (history_abc 2) = Inr t1 \<and> history_pointer t1 = 1
         \<and> current_cad_code t1 = ''b'' \<and> model_history t1 = [''a'', ''b'', ''c'']
         \<and> model_history (on_generation_finished env0 ''/tmp/tmpab12cd.stl''
              (on_code_generated ''d'' t1)) = [''a'', ''b'', ''d'']
         \<and> history_pointer (on_generation_finished env0 ''/tmp/tmpab12cd.stl''
              (on_code_generated ''d'' t1)) = 2)"
  using push_truncates [of "history_abc 0" env0 "''/tmp/tmpab12cd.stl''" "''d''"
      "history_abc 2" "''a''" "''b''" "''c''" env0 env0 "''/tmp/tmpab12cd.stl''"]
  by (simp add: history_abc_def init_def update_undo_redo_buttons_def)

text \<open>
  C5. In a history that satisfies its invariant and whose cursor is above 0, an undo
  followed by a redo both load a snapshot, and the redo leaves the snapshots and the
  cursor as they were before the undo, with the snapshot at that cursor as the current
  code.
\<close>

theorem redo_after_undo:
  "hist_inv s \<and> 0 < history_pointer s \<longrightarrow>
     (\<exists>s1 s2. undo_model e1 s = Inr s1 \<and> redo_model e2 s1 = Inr s2
        \<and> history_pointer s1 = history_pointer s - 1
        \<and> current_cad_code s1 = model_history s ! nat (history_pointer s - 1)
        \<and> history_pointer s2 = history_pointer s
        \<and> model_history s2 = model_history s
        \<and> current_cad_code s2 = model_history s ! nat (history_pointer s))"
  by (auto simp add: hist_inv_def Let_def update_undo_redo_buttons_def
      undo_model_def redo_model_def index_def)

theorem redo_after_undo_witness:
  "hist_inv (history_abc 2) \<and> 0 < history_pointer (history_abc 2)
   \<and> (\<exists>s1 s2. undo_model env0 (history_abc 2) = Inr s1 \<and> redo_model env0 s1 = Inr s2
         \<and> history_pointer s1 = 1 \<and> current_cad_code s1 = ''b''
         \<and> history_pointer s2 = 2 \<and> model_history s2 = [''a'', ''b'', ''c'']
         \<and> current_cad_code s2 = ''c'')"
  using redo_after_undo [of "history_abc 2" env0 env0]
  by (simp add: history_abc_def init_def update_undo_redo_buttons_def hist_inv_def)

text \<open>
  C6. In a history that satisfies its invariant, an undo with the cursor at 0 or with
  no snapshot changes only the status line, which reports that there is nothing more to
  undo: no snapshot is loaded and the cursor stays. A redo with the cursor at the last
  index changes only the status line, which reports that there is nothing more to redo.
\<close>

theorem undo_redo_at_boundary:
  "(hist_inv s \<and> (history_pointer s = 0 \<or> model_history s = []) \<longrightarrow>
      undo_model e s = Inr (s\<lparr>status_label := ''No more actions to undo.''\<rparr>))
   \<and> (history_pointer t = int (length (model_history t)) - 1 \<longrightarrow>
      redo_model e t = Inr (t\<lparr>status_label := ''No more actions to redo.''\<rparr>))"
  by (auto simp add: hist_inv_def undo_model_def redo_model_def)

theorem undo_redo_at_boundary_witness:
  "hist_inv (history_abc 0)
   \<and> (history_pointer (history_abc 0) = 0 \<or> model_history (history_abc 0) = [])
   \<and> undo_model env0 (history_abc 0)
       = Inr ((history_abc 0)\<lparr>status_label := ''No more actions to undo.''\<rparr>)
   \<and> history_pointer (history_abc 2) = int (length (model_history (history_abc 2))) - 1
   \<and> redo_model env0 (history_abc 2)
       = Inr ((history_abc 2)\<lparr>status_label := ''No more actions to redo.''\<rparr>)"
  using undo_redo_at_boundary [of "history_abc 0" env0 "history_abc 2"]
  by (simp add: history_abc_def init_def update_undo_redo_buttons_def hist_inv_def)

subsection \<open>The invariant of the history\<close>

lemma hist_inv_init: "hist_inv (init fs)"
  by (simp add: hist_inv_def init_def update_undo_redo_buttons_def)

lemma hist_inv_on_generation_finished:
  "hist_inv s \<Longrightarrow> hist_inv (on_generation_finished e p s)"
  by (auto simp add: hist_inv_def on_generation_finished_def Let_def
      update_undo_redo_buttons_def slice_to_def)

lemma hist_inv_undo_model:
  "hist_inv s \<Longrightarrow> \<exists>s'. undo_model e s = Inr s' \<and> hist_inv s'"
  by (auto simp add: hist_inv_def undo_model_def Let_def index_def update_undo_redo_buttons_def)

lemma hist_inv_redo_model:
  "hist_inv s \<Longrightarrow> \<exists>s'. redo_model e s = Inr s' \<and> hist_inv s'"
  by (auto simp add: hist_inv_def redo_model_def Let_def index_def update_undo_redo_buttons_def)

lemma hist_inv_new_file: "hist_inv s \<Longrightarrow> hist_inv (new_file reply s)"
  by (simp add: hist_inv_def new_file_def update_undo_redo_buttons_def viewer_clear_model_def)

lemma hist_inv_clear_model: "hist_inv (clear_model s)"
  by (simp add: hist_inv_def clear_model_def update_undo_redo_buttons_def viewer_clear_model_def)

lemma hist_inv_open_file: "hist_inv s \<Longrightarrow> hist_inv (open_file e filepath s)"
  by (simp add: hist_inv_def open_file_def update_undo_redo_buttons_def Let_def)

lemma hist_inv_generate_cad_query: "hist_inv s \<Longrightarrow> hist_inv (generate_cad_query s)"
  by (simp add: hist_inv_def generate_cad_query_def Let_def)

lemma hist_inv_upload_sketch: "hist_inv s \<Longrightarrow> hist_inv (upload_sketch f enc s)"
  by (simp add: hist_inv_def upload_sketch_def Let_def split: sum.splits)

lemma hist_inv_slot:
  assumes "hist_inv s"
  shows "hist_inv (slot e sig s)"
proof (cases sig)
  case (Code_generated c)
  with assms show ?thesis by (simp add: hist_inv_def on_code_generated_def)
next
  case (Generation_finished p)
  with assms show ?thesis by (simp add: hist_inv_on_generation_finished)
next
  case (Generation_error m)
  with assms show ?thesis by (simp add: hist_inv_def on_generation_error_def)
qed

text \<open>Every event keeps the invariant, so every session reached from the start has it.\<close>

lemma hist_inv_dispatch:
  assumes "hist_inv s"
  shows "hist_inv (dispatch e ev s)"
proof (cases ev)
  case (Type_description d)
  with assms show ?thesis by (simp add: hist_inv_def)
next
  case Click_generate
  with assms show ?thesis by (simp add: hist_inv_generate_cad_query)
next
  case (Trigger_new_file reply)
  with assms show ?thesis by (simp add: hist_inv_new_file)
next
  case (Trigger_open_file f)
  with assms show ?thesis by (simp add: hist_inv_open_file)
next
  case Trigger_undo
  from hist_inv_undo_model [OF assms, of e]
  obtain s' where "undo_model e s = Inr s'" "hist_inv s'" by blast
  with assms Trigger_undo show ?thesis by (simp add: after_slot_def)
next
  case Trigger_redo
  from hist_inv_redo_model [OF assms, of e]
  obtain s' where "redo_model e s = Inr s'" "hist_inv s'" by blast
  with assms Trigger_redo show ?thesis by (simp add: after_slot_def)
next
  case Trigger_clear_model
  then show ?thesis by (simp add: hist_inv_clear_model)
next
  case (Trigger_upload_sketch f enc)
  with assms show ?thesis by (simp add: hist_inv_upload_sketch)
next
  case (Emitted sig)
  with assms show ?thesis by (simp add: hist_inv_slot)
next
  case (Worker_run reply)
  have "hist_inv t \<Longrightarrow> hist_inv (foldl (\<lambda>s' sig. slot e sig s') t sigs)" for t sigs
    by (induction sigs arbitrary: t) (simp_all add: hist_inv_slot)
  moreover have "hist_inv (s\<lparr>files := fs, message_boxes := bs\<rparr>)" for fs bs
    using assms by (simp add: hist_inv_def)
  ultimately show ?thesis
    using Worker_run by (simp add: worker_run_def Let_def)
qed

lemma hist_inv_dispatch_all: "hist_inv s \<Longrightarrow> hist_inv (dispatch_all e evs s)"
  by (induction evs arbitrary: s) (simp_all add: hist_inv_dispatch)

lemma hist_inv_reachable: "hist_inv (dispatch_all e evs (init fs))"
  by (simp add: hist_inv_dispatch_all hist_inv_init)

text \<open>
  C7. The invariant of the history (the cursor between \<open>-1\<close> and the last index, and
  \<open>-1\<close> exactly when there is no snapshot) holds at the start and is kept by the push
  at the end of a generation, by undo and redo (which then raise no error), by the
  resets of a new session and of Clear, and by opening a file.
\<close>

theorem hist_inv_preserved:
  "hist_inv (init fs) \<and>
   (hist_inv s \<longrightarrow>
      hist_inv (on_generation_finished e p s)
      \<and> (\<exists>s'. undo_model e s = Inr s' \<and> hist_inv s')
      \<and> (\<exists>s'. redo_model e s = Inr s' \<and> hist_inv s')
      \<and> hist_inv (new_file reply s)
      \<and> hist_inv (clear_model s)
      \<and> hist_inv (open_file e filepath s))"
  by (simp add: hist_inv_init hist_inv_on_generation_finished hist_inv_undo_model
      hist_inv_redo_model hist_inv_new_file hist_inv_clear_model hist_inv_open_file)

theorem hist_inv_preserved_witness:
  "hist_inv (init {}) \<and> hist_inv (history_abc 1)
   \<and> hist_inv (on_generation_finished env0 ''/tmp/tmpab12cd.stl'' (history_abc 1))
   \<and> (\<exists>s'. undo_model env0 (history_abc 1) = Inr s' \<and> hist_inv s')
   \<and> (\<exists>s'. redo_model env0 (history_abc 1) = Inr s' \<and> hist_inv s')
   \<and> hist_inv (new_file True (history_abc 1))
   \<and> hist_inv (clear_model (history_abc 1))
   \<and> hist_inv (open_file env0 user_file (history_abc 1))"
proof -
  have h: "hist_inv (history_abc 1)"
    by (simp add: history_abc_def hist_inv_def init_def update_undo_redo_buttons_def)
  show ?thesis
    using h hist_inv_preserved [where fs = "{}" and s = "history_abc 1" and e = env0
        and p = "''/tmp/tmpab12cd.stl''" and reply = True and filepath = user_file]
    by simp
qed

subsection \<open>Executing a script\<close>

text \<open>
  C8. When the script has run, the worker announces a mesh, and the replay reports a
  displayed model, only if the namespace binds \<open>result\<close> to an instance of Workplane.
  When the binding is missing or is no such instance, the worker emits the invalid-result
  error and the replay shows its invalid-result message. The script \<open>result = 5\<close>,
  which binds the integer, ends so on both paths.
\<close>

theorem result_must_be_workplane:
  "(py_exec e code exec_globals = Executed ns
      \<and> fst (run_execute e code fs) = Generation_finished p \<longrightarrow>
      ns ''result'' \<noteq> None \<and> isinstance_Workplane (get_result ns))
   \<and> (py_exec e code exec_globals = Executed ns
      \<and> status_label (execute_cad_code_and_display e code s)
          = ''Model displayed successfully!'' \<longrightarrow>
      ns ''result'' \<noteq> None \<and> isinstance_Workplane (get_result ns))
   \<and> (py_exec e2 code2 exec_globals = Executed ns2 \<and> code2 \<noteq> []
      \<and> \<not> isinstance_Workplane (get_result ns2) \<longrightarrow>
      run_execute e2 code2 fs
        = (Generation_error (invalid_result_msg @ generated_code_suffix code2), fs)
      \<and> execute_cad_code_and_display e2 code2 s = s\<lparr>status_label := replay_invalid_msg\<rparr>)
   \<and> (py_exec e3 ''result = 5'' exec_globals
        = Executed (exec_globals(''result'' \<mapsto> PyInt 5)) \<longrightarrow>
      run_execute e3 ''result = 5'' fs
        = (Generation_error (invalid_result_msg @ generated_code_suffix ''result = 5''), fs)
      \<and> execute_cad_code_and_display e3 ''result = 5'' s
        = s\<lparr>status_label := replay_invalid_msg\<rparr>)"
  by (auto simp add: run_execute_def execute_cad_code_and_display_def Let_def get_result_def
      viewer_clear_model_def replay_invalid_msg_def quoted_def
      split: sum.splits option.splits py_value.splits if_splits)

theorem result_must_be_workplane_witness:
  "py_exec env0 ''box'' exec_globals
     = Executed (exec_globals(''result'' \<mapsto> Workplane (Solid ''box'')))
   \<and> fst (run_execute env0 ''box'' {}) = Generation_finished ''/tmp/tmpab12cd.stl''
   \<and> status_label (execute_cad_code_and_display env0 ''box'' (init {}))
       = ''Model displayed successfully!''
   \<and> isinstance_Workplane (get_result (exec_globals(''result'' \<mapsto> Workplane (Solid ''box''))))
   \<and> py_exec env0 ''result = 5'' exec_globals = Executed (exec_globals(''result'' \<mapsto> PyInt 5))
   \<and> \<not> isinstance_Workplane (get_result (exec_globals(''result'' \<mapsto> PyInt 5)))
   \<and> run_execute env0 ''result = 5'' {}
       = (Generation_error (invalid_result_msg @ generated_code_suffix ''result = 5''), {})
   \<and> execute_cad_code_and_display env0 ''result = 5'' (init {})
       = (init {})\<lparr>status_label := replay_invalid_msg\<rparr>"
proof -
  have a: "py_exec env0 ''box'' exec_globals
             = Executed (exec_globals(''result'' \<mapsto> Workplane (Solid ''box'')))"
    by (simp add: env0_def)
  have b: "fst (run_execute env0 ''box'' {}) = Generation_finished ''/tmp/tmpab12cd.stl''"
    by (simp add: run_execute_def env0_def exec_globals_def get_result_def temp_stl_path_def)
  have c: "status_label (execute_cad_code_and_display env0 ''box'' (init {}))
             = ''Model displayed successfully!''"
    by (simp add: execute_cad_code_and_display_def env0_def exec_globals_def get_result_def)
  have d: "py_exec env0 ''result = 5'' exec_globals
             = Executed (exec_globals(''result'' \<mapsto> PyInt 5))"
    by (simp add: env0_def)
  have f: "\<not> isinstance_Workplane (get_result (exec_globals(''result'' \<mapsto> PyInt 5)))"
    by (simp add: get_result_def)
  show ?thesis
    using a b c d f
      result_must_be_workplane [where e = env0 and code = "''box''"
        and ns = "exec_globals(''result'' \<mapsto> Workplane (Solid ''box''))" and fs = "{}"
        and p = "''/tmp/tmpab12cd.stl''" and s = "init {}" and ?e2.0 = env0
        and ?code2.0 = "''result = 5''" and ?ns2.0 = "exec_globals(''result'' \<mapsto> PyInt 5)"
        and ?e3.0 = env0]
    by simp
qed

subsection \<open>The messages of a failed execution\<close>

lemma str_in_suffix_code: "str_in code (pre @ generated_code_suffix code)"
  unfolding generated_code_suffix_def str_in_sublist
  by (metis append.assoc append_Nil2 sublist_appendI)

text \<open>
  On the worker's path every error signal of the execution step carries the code, and
  the slot of the signal shows the message in the status line and in the transcript.
\<close>

lemma run_execute_error_includes_code:
  assumes "run_execute e code fs = (Generation_error msg, fs')"
  shows "str_in code msg"
proof (cases "code = []")
  case True
  then show ?thesis by (simp add: str_in_sublist)
next
  case False
  have "\<exists>pre. msg = pre @ generated_code_suffix code"
    using assms False
    by (auto simp add: run_execute_def Let_def
        split: exec_outcome.splits sum.splits option.splits py_value.splits if_splits)
  then show ?thesis by (auto simp: str_in_suffix_code)
qed

lemma on_generation_error_shows_message:
  "str_in code msg \<Longrightarrow>
     str_in code (status_label (on_generation_error msg s))
     \<and> str_in code (last (chat_history_display (on_generation_error msg s)))"
  by (simp add: on_generation_error_def quoted_def)

text \<open>
  Two generations in \<open>env0\<close>, each a whole run of the worker, lead from the start to
  a history of two snapshots with the cursor at the second.
\<close>

lemma strip_fence_step: "strip_code_fence step_script = step_script"
  by (simp add: strip_code_fence_def step_script_def quoted_def fence_open_def fence_close_def
      startswith_def endswith_def strip_def lstrip_def rstrip_def py_isspace_def suffix_to_prefix)

lemma strip_fence_b: "strip_code_fence ''b'' = ''b''"
  by (simp add: strip_code_fence_def fence_open_def fence_close_def
      startswith_def endswith_def strip_def lstrip_def rstrip_def py_isspace_def suffix_to_prefix)

lemma step_script_neq: "step_script \<noteq> ''result = 5''" "step_script \<noteq> []"
  by (simp_all add: step_script_def)

lemma run_execute_env0:
  "code \<noteq> [] \<Longrightarrow> code \<noteq> ''result = 5'' \<Longrightarrow>
     run_execute env0 code fs
       = (Generation_finished ''/tmp/tmpab12cd.stl'', insert ''/tmp/tmpab12cd.stl'' fs)"
  by (simp add: run_execute_def env0_def exec_globals_def get_result_def temp_stl_path_def)

lemma run_step:
  "run env0 (Json [Some [Some step_script]]) fs
     = \<lparr>signals = [Code_generated step_script, Generation_finished ''/tmp/tmpab12cd.stl''],
        boxes = [], files_after = insert ''/tmp/tmpab12cd.stl'' fs\<rparr>"
  by (simp add: run_def strip_fence_step run_execute_env0 step_script_neq)

lemma run_b:
  "run env0 (Json [Some [Some ''b'']]) fs
     = \<lparr>signals = [Code_generated ''b'', Generation_finished ''/tmp/tmpab12cd.stl''],
        boxes = [], files_after = insert ''/tmp/tmpab12cd.stl'' fs\<rparr>"
  by (simp add: run_def strip_fence_b run_execute_env0)

lemma worker_run_success:
  assumes "run e reply (files s)
             = \<lparr>signals = [Code_generated c, Generation_finished p], boxes = [],
                files_after = fs'\<rparr>"
    and "c \<noteq> []"
    and "history_pointer s = int (length (model_history s)) - 1"
  shows "model_history (worker_run e reply s) = model_history s @ [c]"
    and "history_pointer (worker_run e reply s) = int (length (model_history s))"
    and "current_cad_code (worker_run e reply s) = c"
    and "undo_action_enabled (worker_run e reply s) = (model_history s \<noteq> [])"
    and "generate_button_enabled (worker_run e reply s)"
  using assms
  by (simp_all add: worker_run_def on_code_generated_def on_generation_finished_def Let_def
      update_undo_redo_buttons_def)

lemma generate_frame:
  "model_history (generate_cad_query s) = model_history s"
  "history_pointer (generate_cad_query s) = history_pointer s"
  by (simp_all add: generate_cad_query_def Let_def)

lemma two_generations_history:
  "model_history two_generations = [step_script, ''b'']
   \<and> history_pointer two_generations = 1
   \<and> current_cad_code two_generations = ''b''
   \<and> undo_action_enabled two_generations"
proof -
  define s2 where
    "s2 = dispatch_all env0 [Type_description ''the part in part.step'', Click_generate] (init {})"
  define s3 where "s3 = worker_run env0 (Json [Some [Some step_script]]) s2"
  define s5 where
    "s5 = dispatch_all env0 [Type_description ''drill a hole'', Click_generate] s3"
  have two: "two_generations = worker_run env0 (Json [Some [Some ''b'']]) s5"
    by (simp add: two_generations_def s2_def s3_def s5_def)
  have h2: "model_history s2 = []" "history_pointer s2 = - 1"
    unfolding s2_def
    by (simp_all add: generate_frame init_def update_undo_redo_buttons_def)
  have h3: "model_history s3 = [step_script]" "history_pointer s3 = 0"
    unfolding s3_def
    using worker_run_success(1,2) [OF run_step, of s2] h2
    by (simp_all add: step_script_neq)
  have h5: "model_history s5 = [step_script]" "history_pointer s5 = 0"
    unfolding s5_def using h3 by (simp_all add: generate_frame)
  show ?thesis
    unfolding two
    using worker_run_success [OF run_b, of s5] h5
    by simp
qed

lemma undo_status:
  assumes "0 < history_pointer s" "index (model_history s) (history_pointer s - 1) = Some c"
  shows "status_label (after_slot (undo_model e s))
           = status_label (execute_cad_code_and_display e c
               (s\<lparr>history_pointer := history_pointer s - 1, current_cad_code := c\<rparr>))"
  using assms
  by (simp add: undo_model_def after_slot_def Let_def update_undo_redo_buttons_def)

lemma replay_exception_status:
  "code \<noteq> [] \<Longrightarrow> py_exec e code exec_globals = Exception msg \<Longrightarrow>
     status_label (execute_cad_code_and_display e code s)
       = ''Error executing CadQuery code or displaying model: '' @ msg"
  by (simp add: execute_cad_code_and_display_def)

lemma undo_after_file_is_gone:
  "status_label (dispatch env_missing Trigger_undo two_generations)
     = ''Error executing CadQuery code or displaying model: STEP File could not be loaded''"
proof -
  have idx: "index (model_history two_generations) (history_pointer two_generations - 1)
               = Some step_script"
    using two_generations_history by (simp add: index_def)
  show ?thesis
    using two_generations_history undo_status [OF _ idx, of env_missing]
    by (simp add: replay_exception_status step_script_neq env_missing_def)
qed

text \<open>
  C3. The replay of a stored snapshot does not put the code into its failure message.
  After two generations, the first from a script that reads a file, Undo replays that
  script; when the file can no longer be read, the status line holds the text of the
  exception and not the script, where the worker's message for the same failure ends
  with the script. Likewise, with the snapshots \<open>result = 5\<close> and \<open>b\<close> and the cursor
  at the second, Undo replays \<open>result = 5\<close>, which binds an integer: the status line is
  the invalid-result message of the replay, in which the code does not occur, and the
  transcript gets only the line about the undo; the worker, on the same script, emits
  a message that ends with the code.
\<close>

theorem replay_failure_message_omits_code:
  "model_history two_generations = [step_script, ''b'']
   \<and> history_pointer two_generations = 1
   \<and> status_label (dispatch env_missing Trigger_undo two_generations)
       = ''Error executing CadQuery code or displaying model: STEP File could not be loaded''
   \<and> \<not> str_in step_script (status_label (dispatch env_missing Trigger_undo two_generations))
   \<and> fst (run_execute env_missing step_script {})
       = Generation_error
           (''Error executing CadQuery code or exporting model: STEP File could not be loaded''
            @ generated_code_suffix step_script)
   \<and> status_label (after_slot (undo_model env0 replay_state)) = replay_invalid_msg
   \<and> \<not> str_in ''result = 5'' (status_label (after_slot (undo_model env0 replay_state)))
   \<and> chat_history_display (after_slot (undo_model env0 replay_state))
       = [''<b style='' @ quoted ''color:#E0E0E0;'' @ ''>AutoModel:</b> Undoing last change.'']
   \<and> fst (run_execute env0 ''result = 5'' {})
       = Generation_error (invalid_result_msg @ generated_code_suffix ''result = 5'')
   \<and> str_in ''result = 5'' (invalid_result_msg @ generated_code_suffix ''result = 5'')"
proof -
  have a: "\<not> str_in step_script
             ''Error executing CadQuery code or displaying model: STEP File could not be loaded''"
    by (simp add: step_script_def quoted_def)
  have b: "fst (run_execute env_missing step_script {})
       = Generation_error
           (''Error executing CadQuery code or exporting model: STEP File could not be loaded''
            @ generated_code_suffix step_script)"
    by (simp add: run_execute_def env_missing_def step_script_neq)
  have c: "status_label (after_slot (undo_model env0 replay_state)) = replay_invalid_msg
     \<and> chat_history_display (after_slot (undo_model env0 replay_state))
       = [''<b style='' @ quoted ''color:#E0E0E0;'' @ ''>AutoModel:</b> Undoing last change.'']"
    by (simp add: undo_model_def replay_state_def init_def update_undo_redo_buttons_def
        index_def Let_def execute_cad_code_and_display_def env0_def exec_globals_def
        get_result_def after_slot_def)
  have d: "\<not> str_in ''result = 5'' replay_invalid_msg"
    by (simp add: replay_invalid_msg_def quoted_def)
  have e: "fst (run_execute env0 ''result = 5'' {})
       = Generation_error (invalid_result_msg @ generated_code_suffix ''result = 5'')"
    by (simp add: run_execute_def env0_def exec_globals_def get_result_def)
  show ?thesis
    unfolding undo_after_file_is_gone
    using two_generations_history a b c d e
    by (simp add: str_in_suffix_code)
qed

subsection \<open>Deleting the mesh file after the read\<close>

text \<open>
  The file is removed exactly when the text of the temporary directory occurs
  somewhere in the path; the files that the export creates are therefore removed.
\<close>

lemma files_load_stl:
  "files (load_stl e p s) = (if str_in (gettempdir e) p then files s - {p} else files s)"
  by (auto simp add: load_stl_def Let_def add_current_mesh_to_plotter_def
      split: sum.splits option.splits)

lemma temporary_file_removed:
  "temp_stl_path e name \<notin> files (load_stl e (temp_stl_path e name) s)"
  by (simp add: files_load_stl temp_stl_path_def str_in_sublist)

text \<open>
  C1. With the temporary directory \<open>/tmp\<close>, the file \<open>/home/user/tmp/part.stl\<close> is
  not under the temporary directory, yet its path contains the text \<open>/tmp\<close>: the
  import reads it and then removes it, also when it is opened through Open File.
\<close>

theorem load_stl_removes_permanent_file:
  "\<not> prefix (gettempdir env0) user_file
   \<and> current_mesh (load_stl env0 user_file (init {user_file})) = Some (Mesh user_file)
   \<and> files (load_stl env0 user_file (init {user_file})) = {}
   \<and> files (open_file env0 user_file (init {user_file})) = {}"
  by (simp add: files_load_stl open_file_def Let_def update_undo_redo_buttons_def
      env0_def user_file_def init_def load_stl_def add_current_mesh_to_plotter_def)

subsection \<open>One generation at a time\<close>

text \<open>While the Generate button is disabled a click on it does nothing.\<close>

lemma click_generate_ignored:
  "\<not> generate_button_enabled s \<Longrightarrow> dispatch e Click_generate s = s"
  by simp

lemma generate_disables_button:
  "strip (description_input s) \<noteq> [] \<Longrightarrow> \<not> generate_button_enabled (generate_cad_query s)"
  by (simp add: generate_cad_query_def Let_def)

text \<open>
  C2. After a description is typed and Generate is pressed, the Generate button is
  disabled and one worker has been started. The Upload Sketch action is still enabled:
  triggering it, before any signal of the first worker has arrived, creates and starts
  a second worker.
\<close>

theorem second_worker_started_while_generating:
  "\<not> generate_button_enabled generating
   \<and> threads_started generating
       = [\<lparr>description = ''a box'', api_key = API_KEY, existing_cad_code = Some [],
           image_base64 = None\<rparr>]
   \<and> generator_thread generating
       = Some \<lparr>description = ''a box'', api_key = API_KEY, existing_cad_code = Some [],
           image_base64 = None\<rparr>
   \<and> threads_started
        (dispatch env0 (Trigger_upload_sketch ''/home/user/sketch.png'' (Inr ''aGk=''))
           generating)
       = [\<lparr>description = ''a box'', api_key = API_KEY, existing_cad_code = Some [],
           image_base64 = None\<rparr>,
          \<lparr>description = ''Generate 3D model from sketch'', api_key = API_KEY,
           existing_cad_code = None, image_base64 = Some ''aGk=''\<rparr>]"
  by (simp add: generating_def generate_cad_query_def upload_sketch_def Let_def init_def
      update_undo_redo_buttons_def strip_def lstrip_def rstrip_def py_isspace_def)

end
